theory Spec2Isabelle
  imports Main "HOL-Library.Sublist"
begin

section \<open>Python string primitives used by the page assembler\<close>

text \<open>
  Text is a \<^typ>\<open>string\<close>: a list of 8-bit characters. Case-insensitive comparison is
  modelled on the ASCII letters; characters outside ASCII compare by identity.
\<close>

definition bslash :: char where
  \<open>bslash = CHR 0x5C\<close>

text \<open>\<^verbatim>\<open>s.endswith(suf)\<close>\<close>

definition py_endswith :: \<open>string \<Rightarrow> string \<Rightarrow> bool\<close> where
  \<open>py_endswith s suf = (length suf \<le> length s \<and> drop (length s - length suf) s = suf)\<close>

text \<open>
  \<^verbatim>\<open>s.replace(old, new)\<close>: every non-overlapping occurrence of \<open>old\<close>, scanning from
  the left. For an empty \<open>old\<close> Python puts \<open>new\<close> before every character and at the end.
\<close>

function py_replace :: \<open>string \<Rightarrow> string \<Rightarrow> string \<Rightarrow> string\<close> where
  \<open>py_replace old new s =
     (if old = [] then new @ (case s of [] \<Rightarrow> [] | c # cs \<Rightarrow> c # py_replace old new cs)
      else if take (length old) s = old then new @ py_replace old new (drop (length old) s)
      else (case s of [] \<Rightarrow> [] | c # cs \<Rightarrow> c # py_replace old new cs))\<close>
  by pat_completeness auto
termination
proof (relation \<open>measure (\<lambda>(old, new, s). length s)\<close>, goal_cases)
  case (3 old new s)
  then have \<open>s \<noteq> []\<close> by auto
  with 3 show ?case by (cases old) auto
qed auto

declare py_replace.simps [simp del]

text \<open>\<^verbatim>\<open>os.environ.get(k) or st.secrets.get(k, "")\<close>: an empty string is falsy.\<close>

definition resolve_key :: \<open>(string \<rightharpoonup> string) \<Rightarrow> (string \<rightharpoonup> string) \<Rightarrow> string \<Rightarrow> string\<close> where
  \<open>resolve_key env secrets k =
     (case env k of
        Some v \<Rightarrow> if v \<noteq> [] then v else (case secrets k of Some w \<Rightarrow> w | None \<Rightarrow> [])
      | None \<Rightarrow> (case secrets k of Some w \<Rightarrow> w | None \<Rightarrow> []))\<close>

section \<open>The fragment of Python's \<^verbatim>\<open>re\<close> module the assembler uses\<close>

subsection \<open>\<^verbatim>\<open>re.escape\<close>\<close>

definition re_special :: \<open>char list\<close> where
  \<open>re_special = ''()[]{}?*+-|^$'' @ [bslash] @ ''.&~# '' @
     [CHR 0x09, CHR 0x0A, CHR 0x0D, CHR 0x0B, CHR 0x0C]\<close>

definition re_escape :: \<open>string \<Rightarrow> string\<close> where
  \<open>re_escape s = concat (map (\<lambda>c. if c \<in> set re_special then [bslash, c] else [c]) s)\<close>

subsection \<open>Compiled patterns\<close>

datatype atom = Lit char | NotCh char | AnyCh

datatype item = One atom | Star atom | Plus atom | LazyStar atom

type_synonym regex = \<open>item list\<close>

subsection \<open>\<^verbatim>\<open>re.compile\<close>: the pattern syntax\<close>

definition is_ascii_alnum :: \<open>char \<Rightarrow> bool\<close> where
  \<open>is_ascii_alnum c =
     (let n = (of_char c :: nat)
      in (48 \<le> n \<and> n \<le> 57) \<or> (65 \<le> n \<and> n \<le> 90) \<or> (97 \<le> n \<and> n \<le> 122))\<close>

text \<open>
  A character class: only the two forms the assembler writes, \<^verbatim>\<open>[^c]\<close> for one plain
  character \<open>c\<close> and \<^verbatim>\<open>[\s\S]\<close>. Anything else is outside the fragment (\<open>None\<close>).
\<close>

definition parse_class :: \<open>string \<Rightarrow> (atom \<times> string) option\<close> where
  \<open>parse_class cs =
     (if take 5 cs = [bslash, CHR ''s'', bslash, CHR ''S'', CHR '']''] then Some (AnyCh, drop 5 cs)
      else if 3 \<le> length cs \<and> cs ! 0 = CHR ''^'' \<and> cs ! 2 = CHR '']''
              \<and> cs ! 1 \<notin> set ([bslash] @ ''[]^-'')
      then Some (NotCh (cs ! 1), drop 3 cs)
      else None)\<close>

text \<open>
  One atom: a backslash followed by a character that is no ASCII letter or digit is that
  character; an unescaped metacharacter is outside the fragment; any other character is
  itself.
\<close>

fun parse_atom :: \<open>string \<Rightarrow> (atom \<times> string) option\<close> where
  \<open>parse_atom [] = None\<close>
| \<open>parse_atom (c # cs) =
     (if c = bslash then
        (case cs of [] \<Rightarrow> None
         | d # ds \<Rightarrow> if is_ascii_alnum d then None else Some (Lit d, ds))
      else if c = CHR ''['' then parse_class cs
      else if c \<in> set ''.^$*+?{}]|()'' then None
      else Some (Lit c, cs))\<close>

lemma parse_class_shorter: \<open>parse_class cs = Some (a, r) \<Longrightarrow> length r \<le> length cs\<close>
  by (auto simp: parse_class_def split: if_splits)

lemma parse_atom_shorter: \<open>parse_atom s = Some (a, r) \<Longrightarrow> length r < length s\<close>
  by (cases s) (auto split: if_splits list.splits dest: parse_class_shorter)

function parse_re :: \<open>string \<Rightarrow> regex option\<close> where
  \<open>parse_re s =
     (if s = [] then Some []
      else
        (case parse_atom s of
           None \<Rightarrow> None
         | Some (a, r) \<Rightarrow>
             if take 2 r = ''*?'' then map_option ((#) (LazyStar a)) (parse_re (drop 2 r))
             else if take 1 r = ''*'' then map_option ((#) (Star a)) (parse_re (drop 1 r))
             else if take 1 r = ''+'' then map_option ((#) (Plus a)) (parse_re (drop 1 r))
             else map_option ((#) (One a)) (parse_re r)))\<close>
  by pat_completeness auto
termination
  by (relation \<open>measure length\<close>) (auto dest: parse_atom_shorter)

declare parse_re.simps [simp del]

subsection \<open>Matching with \<^verbatim>\<open>re.IGNORECASE\<close>\<close>

definition lower :: \<open>char \<Rightarrow> char\<close> where
  \<open>lower c = (let n = (of_char c :: nat) in if 65 \<le> n \<and> n \<le> 90 then char_of (n + 32) else c)\<close>

fun atom_match :: \<open>atom \<Rightarrow> char \<Rightarrow> bool\<close> where
  \<open>atom_match (Lit a) c = (lower c = lower a)\<close>
| \<open>atom_match (NotCh a) c = (lower c \<noteq> lower a)\<close>
| \<open>atom_match AnyCh c = True\<close>

text \<open>
  The backtracking matcher, anchored at the start of the text: the remainder after the
  first match in the engine's priority order. A greedy repeat tries one more character
  before it tries the rest of the pattern; a lazy repeat tries the rest of the pattern
  first.
\<close>

fun rmatch :: \<open>regex \<Rightarrow> string \<Rightarrow> string option\<close> where
  \<open>rmatch [] s = Some s\<close>
| \<open>rmatch (One a # r) [] = None\<close>
| \<open>rmatch (One a # r) (c # cs) = (if atom_match a c then rmatch r cs else None)\<close>
| \<open>rmatch (Plus a # r) [] = None\<close>
| \<open>rmatch (Plus a # r) (c # cs) = (if atom_match a c then rmatch (Star a # r) cs else None)\<close>
| \<open>rmatch (Star a # r) [] = rmatch r []\<close>
| \<open>rmatch (Star a # r) (c # cs) =
     (if atom_match a c then
        (case rmatch (Star a # r) cs of Some t \<Rightarrow> Some t | None \<Rightarrow> rmatch r (c # cs))
      else rmatch r (c # cs))\<close>
| \<open>rmatch (LazyStar a # r) [] = rmatch r []\<close>
| \<open>rmatch (LazyStar a # r) (c # cs) =
     (case rmatch r (c # cs) of
        Some t \<Rightarrow> Some t
      | None \<Rightarrow> if atom_match a c then rmatch (LazyStar a # r) cs else None)\<close>

text \<open>
  \<^verbatim>\<open>pattern.sub(lambda m: repl, s)\<close>: the matches are found from the left and do not
  overlap; the replacement comes from a function, so it is inserted raw and is not scanned
  again. After an empty match the scan copies one character and moves on.
\<close>

function re_sub :: \<open>regex \<Rightarrow> string \<Rightarrow> string \<Rightarrow> string\<close> where
  \<open>re_sub p repl s =
     (case rmatch p s of
        Some t \<Rightarrow>
          if length t < length s then repl @ re_sub p repl t
          else repl @ (case s of [] \<Rightarrow> [] | c # cs \<Rightarrow> c # re_sub p repl cs)
      | None \<Rightarrow> (case s of [] \<Rightarrow> [] | c # cs \<Rightarrow> c # re_sub p repl cs))\<close>
  by pat_completeness auto
termination
  by (relation \<open>measure (\<lambda>(p, repl, s). length s)\<close>) auto

declare re_sub.simps [simp del]

section \<open>The page assembler\<close>

datatype fault = OSError | ReError

datatype 'a io = Ok 'a | Fails

text \<open>
  The state the assembler reads. \<open>index_html\<close> is \<open>None\<close> when the path does not exist
  and \<open>Some Fails\<close> when opening or decoding it raises; \<open>assets_dir\<close> is \<open>None\<close> when the
  directory does not exist, \<open>Some Fails\<close> when listing it raises, and otherwise the
  listing in the order \<^verbatim>\<open>os.listdir\<close> returns it, each name with what reading the file
  gives.
\<close>

record build_state =
  build_dir_exists :: bool
  index_html :: \<open>string io option\<close>
  assets_dir :: \<open>(string \<times> string io) list io option\<close>

datatype outcome =
    Reported string
  | Rendered string nat bool
  | Raised fault

definition css_pattern :: \<open>string \<Rightarrow> string\<close> where
  \<open>css_pattern css_file = ''<link[^>]+href="[^"]*'' @ re_escape css_file @ ''"[^>]*>''\<close>

definition js_pattern :: \<open>string \<Rightarrow> string\<close> where
  \<open>js_pattern js_file =
     ''<script[^>]+src="[^"]*'' @ re_escape js_file @ ''"[^>]*>['' @
     [bslash, CHR ''s'', bslash, CHR ''S''] @ '']*?</script>''\<close>

definition pattern_sub :: \<open>string \<Rightarrow> string \<Rightarrow> string \<Rightarrow> fault + string\<close> where
  \<open>pattern_sub pat repl html =
     (case parse_re pat of None \<Rightarrow> Inl ReError | Some p \<Rightarrow> Inr (re_sub p repl html))\<close>

definition inline_css_file :: \<open>string \<Rightarrow> string \<Rightarrow> string \<Rightarrow> fault + string\<close> where
  \<open>inline_css_file css_file css_content html =
     pattern_sub (css_pattern css_file) (''<style>'' @ css_content @ ''</style>'') html\<close>

definition inline_js_file :: \<open>string \<Rightarrow> string \<Rightarrow> string \<Rightarrow> fault + string\<close> where
  \<open>inline_js_file js_file js_content html =
     pattern_sub (js_pattern js_file) (''<script type="module">'' @ js_content @ ''</script>'') html\<close>

text \<open>The two loops over the listing; a file that cannot be read raises.\<close>

fun inline_files ::
  \<open>(string \<Rightarrow> string \<Rightarrow> string \<Rightarrow> fault + string) \<Rightarrow> (string \<times> string io) list \<Rightarrow> string
     \<Rightarrow> fault + string\<close> where
  \<open>inline_files step [] html = Inr html\<close>
| \<open>inline_files step ((f, Fails) # fs) html = Inl OSError\<close>
| \<open>inline_files step ((f, Ok content) # fs) html =
     (case step f content html of Inl e \<Rightarrow> Inl e | Inr html' \<Rightarrow> inline_files step fs html')\<close>

definition inline_assets :: \<open>(string \<times> string io) list io option \<Rightarrow> string \<Rightarrow> fault + string\<close> where
  \<open>inline_assets assets html =
     (case assets of
        None \<Rightarrow> Inr html
      | Some Fails \<Rightarrow> Inl OSError
      | Some (Ok listing) \<Rightarrow>
          (case inline_files inline_css_file [e \<leftarrow> listing. py_endswith (fst e) ''.css''] html of
             Inl e \<Rightarrow> Inl e
           | Inr html' \<Rightarrow>
               inline_files inline_js_file [e \<leftarrow> listing. py_endswith (fst e) ''.js''] html'))\<close>

definition injection_script :: \<open>string \<Rightarrow> string \<Rightarrow> string\<close> where
  \<open>injection_script deepseek_key gemini_key =
     ''\<newline>    <script>\<newline>        window.DEEPSEEK_API_KEY = "'' @ deepseek_key @
     ''";\<newline>        // Note: Gemini SDK usually reads process.env.API_KEY directly \<newline>'' @
     ''        // if configured in your bundler (Vite), but we inject for safety.\<newline>'' @
     ''        window.API_KEY = "'' @ gemini_key @ ''";\<newline>    </script>\<newline>    ''\<close>

definition inject_keys :: \<open>(string \<rightharpoonup> string) \<Rightarrow> (string \<rightharpoonup> string) \<Rightarrow> string \<Rightarrow> string\<close> where
  \<open>inject_keys env secrets html =
     (let gemini_key = resolve_key env secrets ''API_KEY'';
          deepseek_key = resolve_key env secrets ''DEEPSEEK_API_KEY''
      in py_replace ''</head>'' (injection_script deepseek_key gemini_key @ ''</head>'') html)\<close>

definition build_not_found :: string where
  \<open>build_not_found =
     ''React build not found. If you are on Render, ensure the build command '' @
     [CHR 0x27] @ ''npm run build'' @ [CHR 0x27] @ '' completed successfully.''\<close>

definition index_not_found :: string where
  \<open>index_not_found = ''index.html not found in dist folder.''\<close>

definition load_react_app ::
  \<open>build_state \<Rightarrow> (string \<rightharpoonup> string) \<Rightarrow> (string \<rightharpoonup> string) \<Rightarrow> outcome\<close> where
  \<open>load_react_app fs env secrets =
     (if \<not> build_dir_exists fs then Reported build_not_found
      else
        (case index_html fs of
           None \<Rightarrow> Reported index_not_found
         | Some Fails \<Rightarrow> Raised OSError
         | Some (Ok html_content) \<Rightarrow>
             (case inline_assets (assets_dir fs) html_content of
                Inl e \<Rightarrow> Raised e
              | Inr html' \<Rightarrow> Rendered (inject_keys env secrets html') 1000 True)))\<close>

section \<open>Notions used to state the properties\<close>








lemma py_replace_Nil: \<open>old \<noteq> [] \<Longrightarrow> py_replace old new [] = []\<close>
  by (subst py_replace.simps) auto

lemma py_replace_hit:
  \<open>old \<noteq> [] \<Longrightarrow> py_replace old new (old @ s) = new @ py_replace old new s\<close>
  by (subst py_replace.simps) simp

lemma py_replace_miss:
  \<open>old \<noteq> [] \<Longrightarrow> take (length old) (c # cs) \<noteq> old \<Longrightarrow>
     py_replace old new (c # cs) = c # py_replace old new cs\<close>
  by (subst py_replace.simps) simp

lemma py_replace_absent:
  \<open>old \<noteq> [] \<Longrightarrow> \<not> sublist old s \<Longrightarrow> py_replace old new s = s\<close>
proof (induction s)
  case Nil
  then show ?case by (simp add: py_replace_Nil)
next
  case (Cons c cs)
  have \<open>take (length old) (c # cs) \<noteq> old\<close>
  proof
    assume \<open>take (length old) (c # cs) = old\<close>
    then have \<open>prefix old (c # cs)\<close> by (metis take_is_prefix)
    with Cons.prems show False by (auto dest: prefix_imp_sublist)
  qed
  moreover have \<open>\<not> sublist old cs\<close>
    using Cons.prems by (auto simp: sublist_Cons_right)
  ultimately show ?case using Cons by (simp add: py_replace_miss)
qed

lemma no_straddle:
  assumes \<open>w \<noteq> []\<close> and \<open>hd w \<notin> set (tl w)\<close> and \<open>v \<noteq> []\<close>
    and \<open>take (length w) (v @ w @ t) = w\<close>
  shows \<open>length w \<le> length v\<close>
proof (rule ccontr)
  assume \<open>\<not> length w \<le> length v\<close>
  then have k: \<open>length v < length w\<close> by simp
  have \<open>(take (length w) (v @ w @ t)) ! length v = (v @ w @ t) ! length v\<close>
    using k by (intro nth_take)
  also have \<open>\<dots> = hd w\<close>
    using assms(1) by (simp add: nth_append hd_conv_nth)
  finally have \<open>w ! length v = hd w\<close> using assms(4) by simp
  moreover have \<open>w ! length v \<in> set (tl w)\<close>
    using k assms(3) by (cases w) (auto simp: nth_Cons split: nat.splits)
  ultimately show False using assms(2) by simp
qed

lemma py_replace_append:
  assumes \<open>old \<noteq> []\<close> and \<open>hd old \<notin> set (tl old)\<close>
  shows \<open>py_replace old new (a @ old @ b) = py_replace old new a @ new @ py_replace old new b\<close>
proof (induction a rule: length_induct)
  case (1 a)
  show ?case
  proof (cases a)
    case Nil
    then show ?thesis using assms(1) py_replace_hit [of old new b]
      by (simp add: py_replace_Nil)
  next
    case (Cons c cs)
    show ?thesis
    proof (cases \<open>take (length old) (a @ old @ b) = old\<close>)
      case True
      then have \<open>length old \<le> length a\<close>
        using no_straddle [OF assms, of a b] Cons by simp
      with True have \<open>take (length old) a = old\<close> by simp
      then obtain a' where a: \<open>a = old @ a'\<close>
        by (metis append_take_drop_id)
      have \<open>length a' < length a\<close> using a assms(1) by simp
      with 1 have \<open>py_replace old new (a' @ old @ b)
        = py_replace old new a' @ new @ py_replace old new b\<close> by blast
      then show ?thesis using a assms(1) by (simp add: py_replace_hit)
    next
      case False
      then have \<open>take (length old) a \<noteq> old\<close>
        by (metis append_eq_conv_conj append_take_drop_id take_append length_take min.absorb2 nat_le_linear take_all)
      with False Cons 1 assms(1) show ?thesis
        by (simp add: py_replace_miss)
    qed
  qed
qed

lemma head_tag_border: \<open>hd ''</head>'' \<notin> set (tl ''</head>'')\<close>
  by simp

























lemma of_char_lt_256: \<open>(of_char c :: nat) < 256\<close>
  by (metis of_char_mod_256 mod_less_divisor zero_less_numeral)





























lemma lower_plain:
  \<open>\<not> (65 \<le> (of_char c :: nat) \<and> (of_char c :: nat) \<le> 90) \<Longrightarrow> lower c = c\<close>
  by (auto simp: lower_def Let_def)

lemma lower_words:
  \<open>map lower ''<link'' = ''<link''\<close>
  \<open>map lower ''<script'' = ''<script''\<close>
  \<open>map lower ''href='' = ''href=''\<close>
  \<open>map lower ''src='' = ''src=''\<close>
  \<open>map lower ''</script>'' = ''</script>''\<close>
  \<open>map lower (''href='' @ [CHR 0x22]) = ''href="''\<close>
  \<open>map lower (''src='' @ [CHR 0x22]) = ''src="''\<close>
  \<open>lower CHR 0x22 = CHR 0x22\<close>
  \<open>lower CHR ''s'' = CHR ''s''\<close>
  \<open>lower CHR ''='' = CHR ''=''\<close>
  by (simp_all add: lower_plain)























text \<open>
  Claim C4. The assembler reports exactly two failures, each by its message and an early
  return: the build directory is absent, or it is present and \<^verbatim>\<open>index.html\<close> is absent.
  In both cases the outcome is the report, so nothing is rendered and nothing is raised.
  Once both checks have passed, no run ends in a report.
\<close>

theorem two_failure_kinds:
  \<open>(\<not> build_dir_exists fs \<longrightarrow> load_react_app fs env secrets = Reported build_not_found) \<and>
   (build_dir_exists fs \<and> index_html fs = None \<longrightarrow>
      load_react_app fs env secrets = Reported index_not_found) \<and>
   (build_dir_exists fs \<and> index_html fs \<noteq> None \<longrightarrow>
      (\<forall>m. load_react_app fs env secrets \<noteq> Reported m))\<close>
  by (auto simp: load_react_app_def split: option.splits io.splits sum.splits)

theorem two_failure_kinds_witness:
  \<open>load_react_app \<lparr>build_dir_exists = False, index_html = None, assets_dir = None\<rparr>
      Map.empty Map.empty = Reported build_not_found \<and>
   load_react_app \<lparr>build_dir_exists = True, index_html = None, assets_dir = None\<rparr>
      Map.empty Map.empty = Reported index_not_found \<and>
   (\<forall>m. load_react_app \<lparr>build_dir_exists = True, index_html = Some (Ok ''<html></html>''),
      assets_dir = None\<rparr> Map.empty Map.empty \<noteq> Reported m)\<close>
  using two_failure_kinds [of \<open>\<lparr>build_dir_exists = False, index_html = None, assets_dir = None\<rparr>\<close>
      Map.empty Map.empty]
    two_failure_kinds [of \<open>\<lparr>build_dir_exists = True, index_html = None, assets_dir = None\<rparr>\<close>
      Map.empty Map.empty]
    two_failure_kinds [of \<open>\<lparr>build_dir_exists = True, index_html = Some (Ok ''<html></html>''),
      assets_dir = None\<rparr>\<close> Map.empty Map.empty]
  by simp







text \<open>
  Claim C8. The key script goes before every occurrence of the exact, case-sensitive text
  \<^verbatim>\<open></head>\<close>: the injection distributes over any split of the document at an
  occurrence, which receives the script in front of it. A document without the text is
  returned as it is, so the keys are left out without any error.
\<close>

theorem keys_before_every_head_close:
  \<open>inject_keys env secrets (a @ ''</head>'' @ b) =
     inject_keys env secrets a @
     injection_script (resolve_key env secrets ''DEEPSEEK_API_KEY'')
       (resolve_key env secrets ''API_KEY'') @ ''</head>'' @
     inject_keys env secrets b \<and>
   (\<not> sublist ''</head>'' html \<longrightarrow> inject_keys env secrets html = html)\<close>
proof
  show \<open>inject_keys env secrets (a @ ''</head>'' @ b) =
     inject_keys env secrets a @
     injection_script (resolve_key env secrets ''DEEPSEEK_API_KEY'')
       (resolve_key env secrets ''API_KEY'') @ ''</head>'' @
     inject_keys env secrets b\<close>
    unfolding inject_keys_def Let_def
    by (subst py_replace_append [OF _ head_tag_border]) simp_all
  show \<open>\<not> sublist ''</head>'' html \<longrightarrow> inject_keys env secrets html = html\<close>
    unfolding inject_keys_def Let_def by (simp add: py_replace_absent)
qed

theorem keys_before_every_head_close_witness:
  \<open>\<not> sublist ''</head>'' ''<html><HEAD></HEAD><body></body></html>'' \<and>
   inject_keys Map.empty Map.empty ''<html><HEAD></HEAD><body></body></html>'' =
     ''<html><HEAD></HEAD><body></body></html>''\<close>
proof -
  have h: \<open>\<not> sublist ''</head>'' ''<html><HEAD></HEAD><body></body></html>''\<close>
    by code_simp
  with keys_before_every_head_close [of Map.empty Map.empty \<open>[]\<close> \<open>[]\<close>
      \<open>''<html><HEAD></HEAD><body></body></html>''\<close>]
  show ?thesis by blast
qed





end
